theory Spec2Isabelle
  imports Main "HOL-Library.AList" "HOL-Library.Finite_Map" "HOL-Library.Extended_Nat"
    "HOL-Library.Word"
begin

section \<open>JavaScript values\<close>

text \<open>
  The store is generic in its value type \<open>V\<close>, but \<open>buildData\<close> inspects the value at
  run time (\<open>typeof value === 'object'\<close>) and \<open>validateKey\<close> inspects the key
  (\<open>typeof key !== 'string'\<close>), so keys and values are modelled as run-time values.
  Numbers are restricted to integers. An object is the finite map of its own enumerable
  string-keyed properties (property order is not observable by any operation here).
  A \<open>Date\<close> carries its time value in milliseconds; \<open>None\<close> is \<open>NaN\<close> (Invalid Date).
\<close>

type_synonym timevalue = "int option"

datatype jsval =
    VUndefined
  | VNull
  | VBool bool
  | VNum int
  | VStr string
  | VDate timevalue
  | VArr "jsval list"
  | VObj "(string, jsval) fmap"

type_synonym jsobject = "(string, jsval) fmap"

fun typeof :: "jsval \<Rightarrow> string" where
  "typeof VUndefined = ''undefined''"
| "typeof VNull = ''object''"
| "typeof (VBool b) = ''boolean''"
| "typeof (VNum n) = ''number''"
| "typeof (VStr s) = ''string''"
| "typeof (VDate t) = ''object''"
| "typeof (VArr xs) = ''object''"
| "typeof (VObj f) = ''object''"

fun isArray :: "jsval \<Rightarrow> bool" where
  "isArray (VArr xs) = True"
| "isArray v = False"

text \<open>
  The own enumerable properties copied by the spread \<open>{ ...value }\<close>. It is only reached
  for non-null, non-array objects; a \<open>Date\<close> has no own enumerable property.
\<close>

fun ownProps :: "jsval \<Rightarrow> jsobject" where
  "ownProps (VObj f) = f"
| "ownProps v = fmempty"

section \<open>Dates\<close>

text \<open>
  The time value arithmetic of ECMAScript: \<open>DayFromYear\<close>, \<open>MakeDay\<close>, \<open>MakeDate\<close> and
  \<open>TimeClip\<close>. A time value is valid only within 8.64e15 ms of the epoch; \<open>TimeClip\<close>
  turns anything beyond into \<open>NaN\<close>.
\<close>

definition msPerDay :: int where
  "msPerDay = 86400000"

definition maxTimeValue :: int where
  "maxTimeValue = 8640000000000000"

definition TimeClip :: "int \<Rightarrow> timevalue" where
  "TimeClip t = (if \<bar>t\<bar> > maxTimeValue then None else Some t)"

definition DayFromYear :: "int \<Rightarrow> int" where
  "DayFromYear y =
     365 * (y - 1970) + (y - 1969) div 4 - (y - 1901) div 100 + (y - 1601) div 400"

definition InLeapYear :: "int \<Rightarrow> bool" where
  "InLeapYear y =
     (if y mod 4 \<noteq> 0 then False
      else if y mod 100 \<noteq> 0 then True
      else y mod 400 = 0)"

text \<open>Days of the year before the first day of month \<open>m\<close> (0 = January).\<close>

definition DaysBeforeMonth :: "bool \<Rightarrow> nat \<Rightarrow> int" where
  "DaysBeforeMonth leap m =
     [0, 31, 59, 90, 120, 151, 181, 212, 243, 273, 304, 334] ! m
       + (if leap \<and> 2 \<le> m then 1 else 0)"

definition MakeDay :: "int \<Rightarrow> nat \<Rightarrow> int \<Rightarrow> int" where
  "MakeDay year month date =
     DayFromYear year + DaysBeforeMonth (InLeapYear year) month + date - 1"

definition MakeDate :: "int \<Rightarrow> int \<Rightarrow> int" where
  "MakeDate day time = day * msPerDay + time"

text \<open>\<open>new Date(ms)\<close> for a number of milliseconds.\<close>

definition newDate :: "int \<Rightarrow> timevalue" where
  "newDate ms = TimeClip ms"

text \<open>
  \<open>new Date('275760-12-31')\<close>, the initial value of \<open>lruKeyExpireAt\<close> in \<open>lruKey\<close>: the
  calendar day 31 December of year 275760 at midnight, clipped. The string is read as
  local time, so the offset \<open>tz\<close> of the local zone (in ms) is subtracted; the value at
  \<open>tz = 0\<close> is the one used below, and \<open>lruKeyInit_any_zone\<close> shows that no zone offset
  changes it.
\<close>

definition parseDate_275760_12_31 :: "int \<Rightarrow> timevalue" where
  "parseDate_275760_12_31 tz = TimeClip (MakeDate (MakeDay 275760 11 31) 0 - tz)"

text \<open>
  The relational operators on two \<open>Date\<close> objects compare their time values as numbers;
  any comparison with \<open>NaN\<close> is false.
\<close>

fun date_lt :: "timevalue \<Rightarrow> timevalue \<Rightarrow> bool" where
  "date_lt (Some a) (Some b) = (a < b)"
| "date_lt a b = False"

fun date_gt :: "timevalue \<Rightarrow> timevalue \<Rightarrow> bool" where
  "date_gt (Some a) (Some b) = (a > b)"
| "date_gt a b = False"

section \<open>The store\<close>

text \<open>
  \<open>_storage\<close> is a JavaScript \<open>Map\<close> from string keys to entries. A \<open>Map\<close> iterates in
  insertion order, \<open>set\<close> on a present key keeps its position and on a new key appends,
  so it is an association list with \<open>AList.update\<close> and \<open>AList.delete\<close>. The keys of a
  \<open>Map\<close> are unique: \<open>uniqueKeys\<close>.
\<close>

type_synonym entry = jsobject
type_synonym store = "(string \<times> entry) list"

definition uniqueKeys :: "store \<Rightarrow> bool" where
  "uniqueKeys s = distinct (map fst s)"

definition Map_has :: "store \<Rightarrow> string \<Rightarrow> bool" where
  "Map_has s k = (map_of s k \<noteq> None)"

definition Map_get :: "store \<Rightarrow> string \<Rightarrow> entry option" where
  "Map_get s k = map_of s k"

definition Map_set :: "string \<Rightarrow> entry \<Rightarrow> store \<Rightarrow> store" where
  "Map_set k d s = AList.update k d s"

definition Map_delete :: "string \<Rightarrow> store \<Rightarrow> bool \<times> store" where
  "Map_delete k s = (Map_has s k, AList.delete k s)"

definition size_of :: "store \<Rightarrow> nat" where
  "size_of s = length s"

text \<open>The field \<open>data.expireAt\<close> of an entry, as the time value of the \<open>Date\<close> stored there.\<close>

definition expireAt :: "entry \<Rightarrow> timevalue" where
  "expireAt data = (case fmlookup data ''expireAt'' of Some (VDate t) \<Rightarrow> t | _ \<Rightarrow> None)"

definition updateAt :: "entry \<Rightarrow> timevalue" where
  "updateAt data = (case fmlookup data ''updateAt'' of Some (VDate t) \<Rightarrow> t | _ \<Rightarrow> None)"

text \<open>
  The read-only configuration fields of a \<open>StorageManager\<close>. \<open>maxItems\<close> is a natural
  number or \<open>Infinity\<close>.
\<close>

record config =
  maxItems :: enat
  expireMs :: int
  keyLength :: nat
  cleanupIntervalMs :: int

text \<open>The constructor: defaults for the options left out, and an empty map.\<close>

definition constructor ::
  "nat option \<Rightarrow> int option \<Rightarrow> nat option \<Rightarrow> int option \<Rightarrow> config \<times> store" where
  "constructor maxItems_opt expireMs_opt keyLength_opt cleanupIntervalMs_opt =
     (\<lparr> maxItems = (case maxItems_opt of None \<Rightarrow> \<infinity> | Some m \<Rightarrow> enat m),
        expireMs = (case expireMs_opt of None \<Rightarrow> 24 * 60 * 60 * 1000 | Some e \<Rightarrow> e),
        keyLength = (case keyLength_opt of None \<Rightarrow> 8 | Some l \<Rightarrow> l),
        cleanupIntervalMs =
          (case cleanupIntervalMs_opt of None \<Rightarrow> 24 * 60 * 60 * 1000 | Some c \<Rightarrow> c) \<rparr>,
      [])"

section \<open>Private methods\<close>

text \<open>
  \<open>cleanup\<close>: one pass over the entries of the map, deleting the current entry from the
  map when \<open>data.expireAt > currentTime\<close>. \<open>now\<close> is the value \<open>Date.now()\<close> returns.
\<close>

fun cleanup_loop :: "timevalue \<Rightarrow> (string \<times> entry) list \<Rightarrow> store \<Rightarrow> store" where
  "cleanup_loop currentTime [] s = s"
| "cleanup_loop currentTime ((key, data) # rest) s =
     cleanup_loop currentTime rest
       (if date_gt (expireAt data) currentTime then snd (Map_delete key s) else s)"

definition cleanup :: "int \<Rightarrow> store \<Rightarrow> store" where
  "cleanup now s = cleanup_loop (newDate now) s s"

text \<open>
  \<open>lruKey\<close>: one pass over the entries, keeping the key of the entry whose \<open>expireAt\<close> is
  below the running minimum \<open>lruKeyExpireAt\<close>, which starts at
  \<open>new Date('275760-12-31')\<close>. \<open>None\<close> is \<open>undefined\<close>.
\<close>

definition lruKeyInit :: timevalue where
  "lruKeyInit = parseDate_275760_12_31 0"

fun lruKey_loop :: "(string \<times> entry) list \<Rightarrow> string option \<Rightarrow> timevalue \<Rightarrow> string option" where
  "lruKey_loop [] lruKey lruKeyExpireAt = lruKey"
| "lruKey_loop ((key, data) # rest) lruKey lruKeyExpireAt =
     (if date_lt (expireAt data) lruKeyExpireAt
      then lruKey_loop rest (Some key) (expireAt data)
      else lruKey_loop rest lruKey lruKeyExpireAt)"

definition lruKey :: "store \<Rightarrow> string option" where
  "lruKey s = lruKey_loop s None lruKeyInit"

text \<open>
  \<open>buildData\<close>: the entry for a value, stamped with \<open>expireAt\<close> and \<open>updateAt\<close>. An object
  value (not null, not an array) is spread and the two stamps are written over it; any
  other value is wrapped under \<open>value\<close>.
\<close>

definition buildData :: "config \<Rightarrow> int \<Rightarrow> jsval \<Rightarrow> entry" where
  "buildData cfg now v =
     (let expireAt = newDate (now + expireMs cfg);
          updateAt = newDate now
      in if typeof v = ''object'' \<and> v \<noteq> VNull \<and> \<not> isArray v
         then fmupd ''updateAt'' (VDate updateAt)
                (fmupd ''expireAt'' (VDate expireAt) (ownProps v))
         else fmupd ''updateAt'' (VDate updateAt)
                (fmupd ''expireAt'' (VDate expireAt)
                  (fmupd ''value'' v fmempty)))"

text \<open>
  The errors thrown: the \<open>TypeError\<close> of \<open>validateKey\<close>, and the two errors of the Node
  library calls in \<open>generateKey\<close>, the \<open>RangeError\<close> with code \<open>ERR_OUT_OF_RANGE\<close> of
  \<open>crypto.randomBytes\<close> and the error with code \<open>ERR_STRING_TOO_LONG\<close> of
  \<open>Buffer.toString\<close>.
\<close>

datatype error = TypeError | ERR_OUT_OF_RANGE | ERR_STRING_TOO_LONG

datatype 'a outcome = Returns 'a | Throws error

text \<open>\<open>validateKey\<close>: throws unless the key is a string; \<open>Inr\<close> carries the string on.\<close>

definition validateKey :: "jsval \<Rightarrow> error + string" where
  "validateKey key = (if typeof key \<noteq> ''string'' then Inl TypeError
                      else (case key of VStr k \<Rightarrow> Inr k | _ \<Rightarrow> Inl TypeError))"

text \<open>
  \<open>handleMaxCapacity\<close>: at capacity, sweep; if still at capacity, delete the key that
  \<open>lruKey\<close> returns. When \<open>lruKey\<close> returns \<open>undefined\<close>, \<open>Map.delete(undefined)\<close> finds
  no such key (all keys are strings) and deletes nothing.
\<close>

definition handleMaxCapacity :: "config \<Rightarrow> int \<Rightarrow> store \<Rightarrow> store" where
  "handleMaxCapacity cfg now s =
     (let s1 = (if enat (size_of s) \<ge> maxItems cfg then cleanup now s else s)
      in if enat (size_of s1) \<ge> maxItems cfg
         then (case lruKey s1 of
                 Some k \<Rightarrow> snd (Map_delete k s1)
               | None \<Rightarrow> s1)
         else s1)"

section \<open>Public methods\<close>

text \<open>
  Every method returns its outcome and the map as it is when the method returns or
  throws. \<open>tc\<close> is the clock reading \<open>cleanup\<close> takes if it runs, \<open>tb\<close> the reading
  \<open>buildData\<close> takes. The interval timer the constructor starts is not part of the
  state: each of its ticks is one call of \<open>cleanup\<close> with the clock reading of that
  moment.
\<close>

definition failure :: jsobject where
  "failure = fmupd ''success'' (VBool False) fmempty"

text \<open>The object literal \<open>{ success: true, key, ...data }\<close>: the later spread wins.\<close>

definition successResult :: "string \<Rightarrow> entry \<Rightarrow> jsobject" where
  "successResult key data =
     (fmupd ''key'' (VStr key) (fmupd ''success'' (VBool True) fmempty)) ++\<^sub>f data"

definition add :: "config \<Rightarrow> int \<Rightarrow> int \<Rightarrow> jsval \<Rightarrow> jsval \<Rightarrow> store \<Rightarrow> jsobject outcome \<times> store" where
  "add cfg tc tb key v s =
     (case validateKey key of
        Inl e \<Rightarrow> (Throws e, s)
      | Inr k \<Rightarrow>
          if Map_has s k then (Returns failure, s)
          else (let s1 = handleMaxCapacity cfg tc s;
                    data = buildData cfg tb v
                in (Returns (successResult k data), Map_set k data s1)))"

definition update :: "config \<Rightarrow> int \<Rightarrow> int \<Rightarrow> jsval \<Rightarrow> jsval \<Rightarrow> store \<Rightarrow> jsobject outcome \<times> store" where
  "update cfg tc tb key v s =
     (case validateKey key of
        Inl e \<Rightarrow> (Throws e, s)
      | Inr k \<Rightarrow>
          if \<not> Map_has s k then (Returns failure, s)
          else (let s1 = handleMaxCapacity cfg tc s;
                    data = buildData cfg tb v
                in (Returns (successResult k data), Map_set k data s1)))"

definition upsert :: "config \<Rightarrow> int \<Rightarrow> int \<Rightarrow> jsval \<Rightarrow> jsval \<Rightarrow> store \<Rightarrow> jsobject outcome \<times> store" where
  "upsert cfg tc tb key v s =
     (case validateKey key of
        Inl e \<Rightarrow> (Throws e, s)
      | Inr k \<Rightarrow>
          (let s1 = (if \<not> Map_has s k then handleMaxCapacity cfg tc s else s);
               data = buildData cfg tb v
           in (Returns (successResult k data), Map_set k data s1)))"

definition get :: "jsval \<Rightarrow> store \<Rightarrow> entry option outcome \<times> store" where
  "get key s =
     (case validateKey key of
        Inl e \<Rightarrow> (Throws e, s)
      | Inr k \<Rightarrow> (Returns (Map_get s k), s))"

definition delete :: "jsval \<Rightarrow> store \<Rightarrow> bool outcome \<times> store" where
  "delete key s =
     (case validateKey key of
        Inl e \<Rightarrow> (Throws e, s)
      | Inr k \<Rightarrow> (case Map_delete k s of (b, s') \<Rightarrow> (Returns b, s')))"

definition clear :: "store \<Rightarrow> store" where
  "clear s = []"

subsection \<open>Key generation\<close>

text \<open>
  \<open>crypto.randomBytes(n)\<close> draws \<open>n\<close> bytes from the system's entropy; the entropy is the
  byte stream \<open>ent\<close>, read from position \<open>pos\<close>. The size \<open>keyLength / 2\<close> is converted to
  an unsigned integer by \<open>randomBytes\<close>, hence \<open>div\<close>. A size above \<open>2 ^ 31 - 1\<close> is
  refused with \<open>ERR_OUT_OF_RANGE\<close>.
\<close>

definition randomBytesMax :: nat where
  "randomBytesMax = 2 ^ 31 - 1"

definition randomBytes :: "(nat \<Rightarrow> 8 word) \<Rightarrow> nat \<Rightarrow> nat \<Rightarrow> error + 8 word list" where
  "randomBytes ent pos n =
     (if n > randomBytesMax then Inl ERR_OUT_OF_RANGE
      else Inr (map ent [pos ..< pos + n]))"


definition hexDigits :: string where
  "hexDigits = ''0123456789abcdef''"

definition hexByte :: "8 word \<Rightarrow> string" where
  "hexByte b = [hexDigits ! (unat b div 16), hexDigits ! (unat b mod 16)]"

definition toHex :: "8 word list \<Rightarrow> string" where
  "toHex bs = concat (map hexByte bs)"

definition toString_hex :: "nat \<Rightarrow> 8 word list \<Rightarrow> error + string" where
  "toString_hex maxStr bs =
     (if 2 * length bs > maxStr then Inl ERR_STRING_TOO_LONG else Inr (toHex bs))"

definition generateKey :: "config \<Rightarrow> nat \<Rightarrow> (nat \<Rightarrow> 8 word) \<Rightarrow> nat \<Rightarrow> error + string" where
  "generateKey cfg maxStr ent pos =
     (case randomBytes ent pos (keyLength cfg div 2) of
        Inl e \<Rightarrow> Inl e
      | Inr bs \<Rightarrow> toString_hex maxStr bs)"

definition maxRetries :: nat where
  "maxRetries = 15"

text \<open>
  The \<open>do ... while (++retryCount <= maxRetries)\<close> loop of \<open>getUniqueKey\<close>; each turn draws
  a fresh key from the next bytes of the entropy. An error thrown by \<open>generateKey\<close>
  leaves the loop and the method.
\<close>

function getUniqueKey_loop ::
  "config \<Rightarrow> nat \<Rightarrow> store \<Rightarrow> (nat \<Rightarrow> 8 word) \<Rightarrow> nat \<Rightarrow> nat \<Rightarrow> error + string" where
  "getUniqueKey_loop cfg maxStr s ent pos retryCount =
     (case generateKey cfg maxStr ent pos of
        Inl e \<Rightarrow> Inl e
      | Inr key \<Rightarrow>
          if \<not> Map_has s key then Inr key
          else if retryCount + 1 \<le> maxRetries
               then getUniqueKey_loop cfg maxStr s ent (pos + keyLength cfg div 2)
                      (retryCount + 1)
               else Inr key)"
  by pat_completeness auto
termination
  by (relation "measure (\<lambda>(cfg, maxStr, s, ent, pos, retryCount).
        Suc maxRetries - retryCount)") auto

declare getUniqueKey_loop.simps [simp del]

definition getUniqueKey ::
  "config \<Rightarrow> nat \<Rightarrow> (nat \<Rightarrow> 8 word) \<Rightarrow> store \<Rightarrow> string outcome \<times> store" where
  "getUniqueKey cfg maxStr ent s =
     (case getUniqueKey_loop cfg maxStr s ent 0 0 of
        Inl e \<Rightarrow> (Throws e, s)
      | Inr key \<Rightarrow> (Returns key, s))"

section \<open>Example runs\<close>

text \<open>
  A store with \<open>maxItems = 2\<close> and the default lifetime of 24 hours, and the three
  insertions \<open>add('a', 1)\<close>, \<open>add('b', 2)\<close>, \<open>add('c', 3)\<close> at the clock readings 0, 1
  and 2 ms.
\<close>

definition cfgTwo :: config where
  "cfgTwo = fst (constructor (Some 2) None None None)"

definition runA :: store where
  "runA = snd (add cfgTwo 0 0 (VStr ''a'') (VNum 1) [])"

definition runAB :: store where
  "runAB = snd (add cfgTwo 1 1 (VStr ''b'') (VNum 2) runA)"

definition runABC :: store where
  "runABC = snd (add cfgTwo 2 2 (VStr ''c'') (VNum 3) runAB)"

text \<open>
  An unbounded store with a lifetime of one second: \<open>x\<close> is added at 0 ms (it expires at
  1000) and \<open>y\<close> at 2000 ms (it expires at 3000).
\<close>

definition cfgSecond :: config where
  "cfgSecond = fst (constructor None (Some 1000) None (Some 100))"

definition runX :: store where
  "runX = snd (add cfgSecond 0 0 (VStr ''x'') (VNum 1) [])"

definition runXY :: store where
  "runXY = snd (add cfgSecond 2000 2000 (VStr ''y'') (VNum 2) runX)"

text \<open>
  A store with \<open>maxItems = 1\<close> and a lifetime of one second: \<open>add('p', 1)\<close> at 0 ms and
  \<open>add('q', 2)\<close> at 2000 ms, when \<open>p\<close> has expired.
\<close>

definition cfgOne :: config where
  "cfgOne = fst (constructor (Some 1) (Some 1000) None (Some 100))"

definition runP :: store where
  "runP = snd (add cfgOne 0 0 (VStr ''p'') (VNum 1) [])"

definition runPQ :: store where
  "runPQ = snd (add cfgOne 2000 2000 (VStr ''q'') (VNum 2) runP)"

text \<open>A value that is an object with an own property \<open>success\<close>: \<open>{ success: false }\<close>.\<close>

definition valFlag :: jsval where
  "valFlag = VObj (fmupd ''success'' (VBool False) fmempty)"




lemmas run_defs =
  constructor_def add_def update_def upsert_def get_def delete_def validateKey_def
  handleMaxCapacity_def cleanup_def lruKey_def buildData_def successResult_def failure_def
  Map_has_def Map_get_def Map_set_def Map_delete_def size_of_def expireAt_def updateAt_def
  newDate_def TimeClip_def maxTimeValue_def Let_def

section \<open>The initial date of lruKey\<close>

text \<open>
  31 December 275760 lies 109 days after the last valid time value (13 September
  275760), so the initial \<open>lruKeyExpireAt\<close> is an Invalid Date, in every time zone.
\<close>

lemma lruKeyInit_NaN: "lruKeyInit = None"
  by (simp add: lruKeyInit_def parseDate_275760_12_31_def TimeClip_def MakeDate_def
      MakeDay_def DayFromYear_def DaysBeforeMonth_def InLeapYear_def msPerDay_def
      maxTimeValue_def)

lemma lruKeyInit_any_zone:
  assumes "\<bar>tz\<bar> \<le> 100 * msPerDay"
  shows "parseDate_275760_12_31 tz = None"
proof -
  have "MakeDate (MakeDay 275760 11 31) 0 = 100000109 * msPerDay"
    by (simp add: MakeDate_def MakeDay_def DayFromYear_def DaysBeforeMonth_def
        InLeapYear_def)
  moreover have "maxTimeValue = 100000000 * msPerDay"
    by (simp add: maxTimeValue_def msPerDay_def)
  ultimately show ?thesis
    using assms by (simp add: parseDate_275760_12_31_def TimeClip_def msPerDay_def)
qed

lemma last_valid_day: "MakeDate (MakeDay 275760 8 13) 0 = maxTimeValue"
  by (simp add: MakeDate_def MakeDay_def DayFromYear_def DaysBeforeMonth_def
      InLeapYear_def msPerDay_def maxTimeValue_def)

lemma newDate_in_range: "\<bar>t\<bar> \<le> maxTimeValue \<Longrightarrow> newDate t = Some t"
  by (simp add: newDate_def TimeClip_def)

lemma date_lt_NaN [simp]: "date_lt a None = False"
  by (cases a) simp_all

section \<open>The map\<close>

lemma delete_filter: "AList.delete k s = filter (\<lambda>p. fst p \<noteq> k) s"
  by (induction s) auto

lemma size_Map_set_new: "\<not> Map_has s k \<Longrightarrow> size_of (Map_set k d s) = size_of s + 1"
  unfolding Map_has_def Map_set_def size_of_def
  by (induction s) (auto split: if_splits)

lemma size_Map_set_old: "Map_has s k \<Longrightarrow> size_of (Map_set k d s) = size_of s"
  unfolding Map_has_def Map_set_def size_of_def
  by (induction s) (auto split: if_splits)

lemma Map_get_Map_set:
  "Map_get (Map_set k d s) k' = (if k' = k then Some d else Map_get s k')"
  by (simp add: Map_get_def Map_set_def update_conv')

lemma size_Map_delete_present:
  assumes "uniqueKeys s" and "Map_has s k"
  shows "Suc (size_of (snd (Map_delete k s))) = size_of s"
proof -
  have "k \<in> set (map fst s)"
    using assms(2) by (simp add: Map_has_def map_of_eq_None_iff)
  moreover have "distinct (map fst s)"
    using assms(1) by (simp add: uniqueKeys_def)
  ultimately have "length (removeAll k (map fst s)) + 1 = length (map fst s)"
    by (simp add: distinct_remove1_removeAll [symmetric] length_remove1)
      (cases s, auto)
  then have "length (AList.delete k s) + 1 = length s"
    by (metis delete_keys length_map)
  then show ?thesis
    by (simp add: Map_delete_def size_of_def)
qed

lemma Map_delete_absent: "\<not> Map_has s k \<Longrightarrow> snd (Map_delete k s) = s"
  by (simp add: Map_delete_def Map_has_def map_of_eq_None_iff)

lemma Map_has_Map_delete: "\<not> Map_has (snd (Map_delete k s)) k"
  by (simp add: Map_delete_def Map_has_def delete_conv')

lemma uniqueKeys_empty: "uniqueKeys []"
  by (simp add: uniqueKeys_def)

lemma uniqueKeys_Map_set: "uniqueKeys s \<Longrightarrow> uniqueKeys (Map_set k d s)"
  by (simp add: uniqueKeys_def Map_set_def distinct_update)

lemma uniqueKeys_Map_delete: "uniqueKeys s \<Longrightarrow> uniqueKeys (snd (Map_delete k s))"
  by (simp add: uniqueKeys_def Map_delete_def distinct_delete)

section \<open>What the private methods compute\<close>

subsection \<open>lruKey\<close>

text \<open>
  No \<open>expireAt\<close> compares below an Invalid Date, so the loop never assigns \<open>lruKey\<close>:
  the method returns \<open>undefined\<close> for every store.
\<close>

lemma lruKey_loop_NaN: "lruKey_loop es k None = k"
  by (induction es arbitrary: k) auto

lemma lruKey_undefined: "lruKey s = None"
  by (simp add: lruKey_def lruKeyInit_NaN lruKey_loop_NaN)

subsection \<open>cleanup\<close>

text \<open>
  The sweep keeps exactly the entries whose \<open>expireAt\<close> is not after the current time,
  in their order; the others, which have not expired yet, are deleted.
\<close>

lemma cleanup_loop_filter:
  "cleanup_loop t es s =
     filter (\<lambda>p. fst p \<notin> fst ` {e \<in> set es. date_gt (expireAt (snd e)) t}) s"
proof (induction es arbitrary: s)
  case Nil
  show ?case by simp
next
  case (Cons e es)
  obtain key data where e: "e = (key, data)" by (cases e)
  show ?case
  proof (cases "date_gt (expireAt data) t")
    case True
    then show ?thesis
      unfolding e
      apply (simp add: Cons.IH Map_delete_def delete_filter)
      apply (rule filter_cong)
       apply (auto simp: image_iff)
      done
  next
    case False
    then show ?thesis
      unfolding e
      apply (simp add: Cons.IH)
      apply (rule filter_cong)
       apply auto
      done
  qed
qed

lemma cleanup_filter:
  assumes "uniqueKeys s"
  shows "cleanup now s = filter (\<lambda>p. \<not> date_gt (expireAt (snd p)) (newDate now)) s"
proof -
  have "fst p \<in> fst ` {e \<in> set s. date_gt (expireAt (snd e)) (newDate now)}
          \<longleftrightarrow> date_gt (expireAt (snd p)) (newDate now)" if "p \<in> set s" for p
  proof
    assume "fst p \<in> fst ` {e \<in> set s. date_gt (expireAt (snd e)) (newDate now)}"
    then obtain e where e: "e \<in> set s" "date_gt (expireAt (snd e)) (newDate now)"
      "fst e = fst p" by auto
    with assms that have "e = p"
      unfolding uniqueKeys_def by (metis eq_key_imp_eq_value prod.collapse)
    with e show "date_gt (expireAt (snd p)) (newDate now)" by simp
  next
    assume "date_gt (expireAt (snd p)) (newDate now)"
    with that show "fst p \<in> fst ` {e \<in> set s. date_gt (expireAt (snd e)) (newDate now)}"
      by auto
  qed
  then show ?thesis
    unfolding cleanup_def cleanup_loop_filter by (intro filter_cong) auto
qed

lemma uniqueKeys_cleanup: "uniqueKeys s \<Longrightarrow> uniqueKeys (cleanup now s)"
  by (simp add: uniqueKeys_def cleanup_def cleanup_loop_filter distinct_map_filter)

subsection \<open>handleMaxCapacity\<close>

lemma handleMaxCapacity_below:
  assumes "enat (size_of s) < maxItems cfg"
  shows "handleMaxCapacity cfg now s = s"
proof -
  from assms have "\<not> maxItems cfg \<le> enat (size_of s)" by simp
  then show ?thesis by (simp add: handleMaxCapacity_def Let_def)
qed

text \<open>Since \<open>lruKey\<close> is always \<open>undefined\<close>, the method is the sweep and nothing more.\<close>

lemma handleMaxCapacity_sweep_only:
  "handleMaxCapacity cfg now s =
     (if enat (size_of s) \<ge> maxItems cfg then cleanup now s else s)"
  by (simp add: handleMaxCapacity_def Let_def lruKey_undefined)

lemma uniqueKeys_handleMaxCapacity:
  "uniqueKeys s \<Longrightarrow> uniqueKeys (handleMaxCapacity cfg now s)"
  by (simp add: handleMaxCapacity_sweep_only uniqueKeys_cleanup)

subsection \<open>buildData and validateKey\<close>

lemma expireAt_buildData: "expireAt (buildData cfg now v) = newDate (now + expireMs cfg)"
  by (simp add: buildData_def Let_def expireAt_def)

lemma updateAt_buildData: "updateAt (buildData cfg now v) = newDate now"
  by (simp add: buildData_def Let_def updateAt_def)

lemma expireAt_successResult:
  "expireAt (successResult k (buildData cfg now v)) = newDate (now + expireMs cfg)"
  by (simp add: successResult_def buildData_def Let_def expireAt_def)

lemma success_successResult:
  "''success'' |\<notin>| fmdom (ownProps v) \<Longrightarrow>
     fmlookup (successResult k (buildData cfg now v)) ''success'' = Some (VBool True)"
  by (simp add: successResult_def buildData_def Let_def)

lemma validateKey_string [simp]: "validateKey (VStr k) = Inr k"
  by (simp add: validateKey_def)

lemma validateKey_other: "typeof key \<noteq> ''string'' \<Longrightarrow> validateKey key = Inl TypeError"
  by (simp add: validateKey_def)

subsection \<open>The public methods keep the keys of the map unique\<close>

lemma uniqueKeys_add: "uniqueKeys s \<Longrightarrow> uniqueKeys (snd (add cfg tc tb key v s))"
  by (cases "validateKey key")
    (simp_all add: add_def Let_def uniqueKeys_Map_set uniqueKeys_handleMaxCapacity)

lemma uniqueKeys_update: "uniqueKeys s \<Longrightarrow> uniqueKeys (snd (update cfg tc tb key v s))"
  by (cases "validateKey key")
    (simp_all add: update_def Let_def uniqueKeys_Map_set uniqueKeys_handleMaxCapacity)

lemma uniqueKeys_upsert: "uniqueKeys s \<Longrightarrow> uniqueKeys (snd (upsert cfg tc tb key v s))"
  by (cases "validateKey key")
    (simp_all add: upsert_def Let_def uniqueKeys_Map_set uniqueKeys_handleMaxCapacity)

lemma uniqueKeys_delete: "uniqueKeys s \<Longrightarrow> uniqueKeys (snd (delete key s))"
  by (cases "validateKey key")
    (simp_all add: delete_def Map_delete_def uniqueKeys_def distinct_delete)

section \<open>Generated keys\<close>








text \<open>The method never changes the store, whether it returns or throws.\<close>

lemma getUniqueKey_store: "snd (getUniqueKey cfg maxStr ent s) = s"
  by (simp add: getUniqueKey_def split: sum.split)


section \<open>The expiration sweep\<close>

text \<open>
  Claim C1: one run of the sweep removes exactly the entries whose \<open>expireAt\<close> is at or
  before the current time and leaves every entry whose \<open>expireAt\<close> is after it.

  The comment on \<open>cleanup\<close> says the same ("entries with an expiration date older than
  the current time will be deleted"), but the test in the loop is
  \<open>data.expireAt > currentTime\<close>. In the store \<open>runXY\<close>, \<open>x\<close> expires at 1000 ms and \<open>y\<close> at
  3000 ms; the sweep at 2500 ms keeps the expired \<open>x\<close> and removes the live \<open>y\<close>.
  (\<open>cleanup_filter\<close> is the general statement of what the sweep keeps.)
\<close>

theorem cleanup_keeps_expired_removes_live:
  "map fst runXY = [''x'', ''y'']
   \<and> map (expireAt \<circ> snd) runXY = [Some 1000, Some 3000]
   \<and> map fst (cleanup 2500 runXY) = [''x'']"
  by (simp add: runXY_def runX_def cfgSecond_def run_defs)

section \<open>The capacity policy\<close>

text \<open>
  Claim C2: with \<open>maxItems\<close> set, when a new key is about to be inserted and the size is
  still at least \<open>maxItems\<close> after the synchronous sweep, the policy removes exactly one
  entry, one with the earliest \<open>expireAt\<close>; with \<open>maxItems = 2\<close> and equal lifetimes,
  after \<open>add('a',1)\<close>, \<open>add('b',2)\<close>, \<open>add('c',3)\<close> the store holds \<open>b\<close> and \<open>c\<close> and not \<open>a\<close>.

  The comments on \<open>lruKey\<close> and \<open>handleMaxCapacity\<close> describe this policy, but the code
  does neither part. In the run of the three insertions the sweep deletes \<open>a\<close> and \<open>b\<close>,
  which have not expired, and the store ends with \<open>c\<close> alone. And where the sweep
  leaves the store at capacity (\<open>runP\<close>, whose only entry has expired at 2000 ms),
  \<open>lruKey\<close> returns \<open>undefined\<close> and nothing is removed.
\<close>

theorem three_adds_leave_only_last:
  "map fst runAB = [''a'', ''b'']
   \<and> map fst runABC = [''c'']
   \<and> size_of runABC = 1
   \<and> size_of (cleanup 2000 runP) = 1
   \<and> handleMaxCapacity cfgOne 2000 runP = runP"
  by (simp add: runABC_def runAB_def runA_def cfgTwo_def runP_def cfgOne_def run_defs
      lruKeyInit_NaN one_enat_def)

section \<open>add\<close>

text \<open>
  Claim C3: for every string key not present in the store and every value, \<open>add\<close>
  returns a success result whose \<open>expireAt\<close> is the insertion time plus \<open>expireMs\<close>, and
  the size of the store increases by exactly 1.

  As stated this fails for a store at capacity, where the capacity policy removes
  entries before the insertion: adding \<open>c\<close> to \<open>runAB\<close> takes the size from 2 to 1. It
  also fails for a value that is an object with an own property \<open>success\<close>, which the
  spread of the entry writes over \<open>success: true\<close> in the result.
\<close>

theorem add_at_capacity_counterexample:
  "\<not> Map_has runAB ''c''
   \<and> size_of runAB = 2
   \<and> size_of (snd (add cfgTwo 2 2 (VStr ''c'') (VNum 3) runAB)) = 1
   \<and> fst (add cfgSecond 0 0 (VStr ''k'') valFlag [])
       = Returns (successResult ''k'' (buildData cfgSecond 0 valFlag))
   \<and> fmlookup (successResult ''k'' (buildData cfgSecond 0 valFlag)) ''success''
       = Some (VBool False)"
  by (simp add: runAB_def runA_def cfgTwo_def cfgSecond_def valFlag_def run_defs
      lruKeyInit_NaN)

text \<open>
  Claim C3, amended: for every string key not present in the store and every value that
  is not an object with an own property \<open>success\<close>, \<open>add\<close> returns a result whose
  \<open>success\<close> is \<open>true\<close> and whose \<open>expireAt\<close> is the \<open>Date\<close> of the insertion time plus
  \<open>expireMs\<close>, and stores an entry with that \<open>expireAt\<close> under the key; when the store
  holds fewer than \<open>maxItems\<close> entries, its size increases by exactly 1.
\<close>

theorem add_new_key:
  assumes "\<not> Map_has s k" and "''success'' |\<notin>| fmdom (ownProps v)"
  shows "case add cfg tc tb (VStr k) v s of
           (Returns r, s') \<Rightarrow>
              fmlookup r ''success'' = Some (VBool True)
            \<and> expireAt r = newDate (tb + expireMs cfg)
            \<and> map_option expireAt (Map_get s' k) = Some (newDate (tb + expireMs cfg))
            \<and> (enat (size_of s) < maxItems cfg \<longrightarrow> size_of s' = size_of s + 1)
         | (Throws e, s') \<Rightarrow> False"
  using assms
  by (simp add: add_def Let_def handleMaxCapacity_below success_successResult
      expireAt_successResult expireAt_buildData size_Map_set_new Map_get_Map_set)

theorem add_new_key_witness:
  "\<not> Map_has runA ''b''
   \<and> enat (size_of runA) < maxItems cfgTwo
   \<and> ''success'' |\<notin>| fmdom (ownProps (VNum 2))
   \<and> (case add cfgTwo 1 1 (VStr ''b'') (VNum 2) runA of
         (Returns r, s') \<Rightarrow>
            fmlookup r ''success'' = Some (VBool True)
          \<and> expireAt r = Some 86400001
          \<and> map_option expireAt (Map_get s' ''b'') = Some (Some 86400001)
          \<and> size_of s' = 2
       | (Throws e, s') \<Rightarrow> False)"
  using add_new_key [where s = runA and k = "''b''" and cfg = cfgTwo
      and v = "VNum 2" and tc = 1 and tb = 1]
  by (simp add: runA_def cfgTwo_def run_defs)

text \<open>
  Claim C4: for every string key already present in the store and every value, \<open>add\<close>
  returns \<open>{ success: false }\<close> and leaves the whole store as it was: the entry under the
  key keeps its value, \<open>expireAt\<close> and \<open>updateAt\<close>, nothing is evicted and the size is
  unchanged.
\<close>

theorem add_existing_key:
  assumes "Map_has s k"
  shows "add cfg tc tb (VStr k) v s = (Returns (fmupd ''success'' (VBool False) fmempty), s)"
  using assms by (simp add: add_def failure_def)

theorem add_existing_key_witness:
  "Map_has runAB ''a''
   \<and> add cfgTwo 5 5 (VStr ''a'') (VNum 9) runAB
       = (Returns (fmupd ''success'' (VBool False) fmempty), runAB)"
  using add_existing_key [where s = runAB and k = "''a''" and cfg = cfgTwo
      and v = "VNum 9" and tc = 5 and tb = 5]
  by (simp add: runAB_def runA_def cfgTwo_def run_defs)

section \<open>update\<close>

text \<open>
  Claim C5: for every string key not present in the store and every value, \<open>update\<close>
  returns \<open>{ success: false }\<close>, creates no entry for the key and leaves the store as it
  was.
\<close>

theorem update_absent_key:
  assumes "\<not> Map_has s k"
  shows "update cfg tc tb (VStr k) v s
           = (Returns (fmupd ''success'' (VBool False) fmempty), s)
         \<and> \<not> Map_has (snd (update cfg tc tb (VStr k) v s)) k"
  using assms by (simp add: update_def failure_def)

theorem update_absent_key_witness:
  "\<not> Map_has runAB ''z''
   \<and> update cfgTwo 5 5 (VStr ''z'') (VNum 9) runAB
       = (Returns (fmupd ''success'' (VBool False) fmempty), runAB)
   \<and> \<not> Map_has (snd (update cfgTwo 5 5 (VStr ''z'') (VNum 9) runAB)) ''z''"
  using update_absent_key [where s = runAB and k = "''z''" and cfg = cfgTwo
      and v = "VNum 9" and tc = 5 and tb = 5]
  by (simp add: runAB_def runA_def cfgTwo_def run_defs)

section \<open>upsert\<close>

text \<open>
  What \<open>upsert\<close> does for a string key: it runs the capacity policy only when the key
  is new, stores a freshly stamped entry under the key, and returns the object literal
  \<open>{ success: true, key, ...data }\<close>.
\<close>

lemma upsert_string_key:
  "upsert cfg tc tb (VStr k) v s =
     (Returns (successResult k (buildData cfg tb v)),
      Map_set k (buildData cfg tb v) (if Map_has s k then s else handleMaxCapacity cfg tc s))"
  by (simp add: upsert_def Let_def)

lemma upsert_stores_fresh_entry:
  "map_option expireAt (Map_get (snd (upsert cfg tc tb (VStr k) v s)) k)
     = Some (newDate (tb + expireMs cfg))
   \<and> map_option updateAt (Map_get (snd (upsert cfg tc tb (VStr k) v s)) k)
     = Some (newDate tb)"
  by (simp add: upsert_string_key Map_get_Map_set expireAt_buildData updateAt_buildData)

text \<open>
  Claim C6: for every string key and value, \<open>upsert\<close> returns a success result; it
  creates the entry if the key is absent and overwrites it if present, always with fresh
  \<open>expireAt\<close> and \<open>updateAt\<close>; the capacity policy runs only when the key is new.

  The declared result type has \<open>success: true\<close>, but the result is built as
  \<open>{ success: true, key, ...data }\<close>, and for an object value \<open>data\<close> carries the value's
  own properties. For the value \<open>{ success: false }\<close> the entry is stored and the result
  has \<open>success: false\<close>.
\<close>

theorem upsert_success_flag_overwritten:
  "fst (upsert cfgSecond 0 0 (VStr ''k'') valFlag [])
     = Returns (successResult ''k'' (buildData cfgSecond 0 valFlag))
   \<and> fmlookup (successResult ''k'' (buildData cfgSecond 0 valFlag)) ''success''
       = Some (VBool False)
   \<and> Map_has (snd (upsert cfgSecond 0 0 (VStr ''k'') valFlag [])) ''k''
   \<and> size_of (snd (upsert cfgSecond 0 0 (VStr ''k'') valFlag [])) = 1"
  by (simp add: cfgSecond_def valFlag_def run_defs)

section \<open>delete\<close>

text \<open>
  Claim C7: for every string key, \<open>delete\<close> returns \<open>true\<close> exactly when the key was
  present; when it returns \<open>true\<close> the size decreases by exactly 1 and the key is absent
  afterwards; when it returns \<open>false\<close> the store is unchanged. (The keys of a \<open>Map\<close> are
  unique, which the association list states as \<open>uniqueKeys\<close>.)
\<close>

theorem delete_true_iff_present:
  assumes "uniqueKeys s"
  shows "case delete (VStr k) s of
           (Returns b, s') \<Rightarrow>
              b = Map_has s k
            \<and> (if b then size_of s' + 1 = size_of s \<and> \<not> Map_has s' k else s' = s)
         | (Throws e, s') \<Rightarrow> False"
proof -
  have "delete (VStr k) s = (Returns (Map_has s k), snd (Map_delete k s))"
    by (simp add: delete_def Map_delete_def)
  then show ?thesis
    using assms
    by (simp add: size_Map_delete_present Map_delete_absent Map_has_Map_delete)
qed

theorem delete_true_iff_present_witness:
  "uniqueKeys runAB
   \<and> fst (delete (VStr ''a'') runAB) = Returns True
   \<and> map fst (snd (delete (VStr ''a'') runAB)) = [''b'']
   \<and> delete (VStr ''z'') runAB = (Returns False, runAB)"
  using delete_true_iff_present [where s = runAB and k = "''a''"]
    delete_true_iff_present [where s = runAB and k = "''z''"]
  by (simp add: uniqueKeys_def runAB_def runA_def cfgTwo_def run_defs)

section \<open>getUniqueKey\<close>




section \<open>Key validation\<close>

text \<open>
  Claim C9: for each of \<open>add\<close>, \<open>update\<close>, \<open>upsert\<close>, \<open>get\<close> and \<open>delete\<close> and every key
  that is not a string, the method throws a \<open>TypeError\<close> before any mutation: the store
  is the one it was called on.
\<close>

theorem non_string_key_throws:
  assumes "typeof key \<noteq> ''string''"
  shows "add cfg tc tb key v s = (Throws TypeError, s)
       \<and> update cfg tc tb key v s = (Throws TypeError, s)
       \<and> upsert cfg tc tb key v s = (Throws TypeError, s)
       \<and> get key s = (Throws TypeError, s)
       \<and> delete key s = (Throws TypeError, s)"
  using assms
  by (simp add: add_def update_def upsert_def get_def delete_def validateKey_other)

theorem non_string_key_throws_witness:
  "typeof (VNum 5) \<noteq> ''string''
   \<and> add cfgTwo 5 5 (VNum 5) (VNum 9) runAB = (Throws TypeError, runAB)
   \<and> update cfgTwo 5 5 (VNum 5) (VNum 9) runAB = (Throws TypeError, runAB)
   \<and> upsert cfgTwo 5 5 (VNum 5) (VNum 9) runAB = (Throws TypeError, runAB)
   \<and> get (VNum 5) runAB = (Throws TypeError, runAB)
   \<and> delete (VNum 5) runAB = (Throws TypeError, runAB)"
  using non_string_key_throws [where key = "VNum 5" and cfg = cfgTwo and tc = 5
      and tb = 5 and v = "VNum 9" and s = runAB]
  by simp

section \<open>The bound on the size\<close>

text \<open>
  Claim C10: for a store constructed with a finite \<open>maxItems\<close>, every public operation
  preserves \<open>size \<le> maxItems\<close> from every reachable state; no successful \<open>add\<close> or
  \<open>upsert\<close> of a new key leaves more than \<open>maxItems\<close> entries, whatever the expiration
  times of the entries present.

  \<open>handleMaxCapacity\<close> is written to make room before an insertion, but an entry that
  has expired is kept by the sweep and \<open>lruKey\<close> returns \<open>undefined\<close>, so nothing is
  removed. With \<open>maxItems = 1\<close>: \<open>add('p', 1)\<close> at 0 ms, then \<open>add('q', 2)\<close> at 2000 ms,
  and the store holds two entries.
\<close>

theorem add_exceeds_maxItems:
  "maxItems cfgOne = enat 1
   \<and> map fst runP = [''p'']
   \<and> map fst runPQ = [''p'', ''q'']
   \<and> size_of runPQ = 2"
  by (simp add: runPQ_def runP_def cfgOne_def run_defs lruKeyInit_NaN)

end
